theory Spec2Isabelle
  imports Main
begin

section \<open>The Rusted Moss world: rule compiler, region graph and goal wiring\<close>

text \<open>
  A shallow embedding of \<^verbatim>\<open>worlds/rusted_moss/__init__.py\<close>. Strings are lists of
  characters, each character a code point below 256. Python exceptions are values of
  \<open>py_error\<close>; a function that can raise returns \<open>py_error + 'a\<close>.
\<close>

datatype py_error =
    SyntaxError | ValueError | IndexError | KeyError | NameError | TypeError
  | RecursionError | Unmodelled_text

subsection \<open>The inventory state\<close>

text \<open>
  Modelled from the spec: \<^verbatim>\<open>CollectionState.has\<close> of the framework is not part of
  the world's file. The spec's item requirement is "satisfied when the inventory holds
  at least count units of name for the owning player"; the count defaults to one. The
  state is the count of every item per player.
\<close>

type_synonym collection_state = "int \<Rightarrow> string \<Rightarrow> int"

definition has :: "collection_state \<Rightarrow> string \<Rightarrow> int \<Rightarrow> int option \<Rightarrow> bool" where
  "has state item player count =
     (state player item \<ge> (case count of None \<Rightarrow> 1 | Some n \<Rightarrow> n))"

subsection \<open>The text that \<open>convert_to_rule\<close> assembles\<close>

text \<open>
  \<open>lambda_string\<close> is the concatenation of pieces of Python text. Each piece is kept as
  a value that stands for its text:
  \<^item> \<open>Lparen\<close> for \<^verbatim>\<open>(\<close>, \<open>Rparen\<close> for \<^verbatim>\<open>)\<close>;
  \<^item> \<open>And_text\<close> for \<^verbatim>\<open> and \<close>, \<open>Or_text\<close> for \<^verbatim>\<open> or \<close> (with the blanks);
  \<^item> \<open>Has_text item player None\<close> for \<^verbatim>\<open>state.has("item", player)\<close> and
    \<open>Has_text item player (Some count)\<close> for \<^verbatim>\<open>state.has("item", player, count)\<close>;
  \<^item> \<open>Bool_text b\<close> for \<^verbatim>\<open>True\<close> or \<^verbatim>\<open>False\<close>, the \<^verbatim>\<open>str(bool(value))\<close> of an option.
\<close>

datatype piece =
    Lparen | Rparen | And_text | Or_text
  | Has_text string int "int option"
  | Bool_text bool

definition make_has :: "int \<Rightarrow> string \<Rightarrow> int \<Rightarrow> piece" where
  "make_has player item count =
     (if count > 1 then Has_text item player (Some count) else Has_text item player None)"

subsection \<open>Python's reading of the assembled text\<close>

text \<open>
  \<^verbatim>\<open>eval\<close> is Python's. Its model reads the pieces the way Python reads their
  concatenation. Adjacent pieces without a blank between them run together: \<^verbatim>\<open>True\<close>
  directly before \<^verbatim>\<open>state.has(...)\<close> is the one identifier \<^verbatim>\<open>Truestate\<close>, two
  option texts in a row are one identifier such as \<^verbatim>\<open>TrueFalse\<close>. A token is a
  parenthesis, a keyword \<^verbatim>\<open>and\<close>/\<^verbatim>\<open>or\<close>, an identifier, or a call
  \<^verbatim>\<open>recv.has("item", player[, count])\<close> with its receiver identifier.
\<close>

datatype py_token =
    T_lpar | T_rpar | T_and | T_or
  | T_name string
  | T_has string string int "int option"

definition bool_text :: "bool \<Rightarrow> string" where
  "bool_text b = (if b then ''True'' else ''False'')"

fun tokens_of :: "piece list \<Rightarrow> py_token list" where
  "tokens_of [] = []"
| "tokens_of (Lparen # ps) = T_lpar # tokens_of ps"
| "tokens_of (Rparen # ps) = T_rpar # tokens_of ps"
| "tokens_of (And_text # ps) = T_and # tokens_of ps"
| "tokens_of (Or_text # ps) = T_or # tokens_of ps"
| "tokens_of (Has_text item player count # ps) = T_has ''state'' item player count # tokens_of ps"
| "tokens_of (Bool_text b # ps) =
     (case tokens_of ps of
        T_name s # ts \<Rightarrow> T_name (bool_text b @ s) # ts
      | T_has recv item player count # ts \<Rightarrow> T_has (bool_text b @ recv) item player count # ts
      | ts \<Rightarrow> T_name (bool_text b) # ts)"

text \<open>
  The expressions these tokens can form. \<open>Has_call recv item player count\<close> is the call
  of \<^verbatim>\<open>has\<close> on the identifier \<open>recv\<close>; \<open>Call f arg\<close> is an expression directly
  followed by a parenthesised argument (or by \<^verbatim>\<open>()\<close>); \<open>Empty_tuple\<close> is \<^verbatim>\<open>()\<close>.
\<close>

datatype py_expr =
    Has_call string string int "int option"
  | Constant bool
  | Name string
  | Empty_tuple
  | BoolAnd py_expr py_expr
  | BoolOr py_expr py_expr
  | Call py_expr "py_expr option"

definition atom_of_name :: "string \<Rightarrow> py_expr" where
  "atom_of_name s =
     (if s = ''True'' then Constant True else if s = ''False'' then Constant False else Name s)"

definition join_and :: "py_expr option \<Rightarrow> py_expr \<Rightarrow> py_expr" where
  "join_and acc e = (case acc of None \<Rightarrow> e | Some a \<Rightarrow> BoolAnd a e)"

definition join_or :: "py_expr option \<Rightarrow> py_expr \<Rightarrow> py_expr" where
  "join_or acc e = (case acc of None \<Rightarrow> e | Some a \<Rightarrow> BoolOr a e)"

text \<open>
  Python's grammar on these tokens is
  \<^verbatim>\<open>or_test: and_test ('or' and_test)*\<close>, \<^verbatim>\<open>and_test: primary ('and' primary)*\<close>,
  \<^verbatim>\<open>primary: atom ('(' [or_test] ')')*\<close>,
  \<^verbatim>\<open>atom: NAME | call of has | '(' [or_test] ')'\<close>:
  \<^verbatim>\<open>and\<close> binds tighter than \<^verbatim>\<open>or\<close>, and both associate to the left.
  \<open>parse\<close> reads the tokens from left to right. A frame \<open>(ors, ands, cur)\<close> holds the
  \<^verbatim>\<open>or\<close> operands finished so far, the \<^verbatim>\<open>and\<close> operands finished so far in the current
  \<^verbatim>\<open>and_test\<close>, and the primary being read; the stack holds the frames of the enclosing
  open parentheses.
\<close>

type_synonym frame = "py_expr option \<times> py_expr option \<times> py_expr option"

fun parse :: "frame list \<Rightarrow> frame \<Rightarrow> py_token list \<Rightarrow> py_error + py_expr" where
  "parse stack (ors, ands, Some e) [] =
     (if stack = [] then Inr (join_or ors (join_and ands e)) else Inl SyntaxError)"
| "parse stack (ors, ands, None) [] = Inl SyntaxError"
| "parse stack (ors, ands, None) (T_name s # ts) = parse stack (ors, ands, Some (atom_of_name s)) ts"
| "parse stack (ors, ands, None) (T_has recv item player count # ts) =
     parse stack (ors, ands, Some (Has_call recv item player count)) ts"
| "parse stack (ors, ands, Some e) (T_name s # ts) = Inl SyntaxError"
| "parse stack (ors, ands, Some e) (T_has recv item player count # ts) = Inl SyntaxError"
| "parse stack (ors, ands, Some e) (T_and # ts) = parse stack (ors, Some (join_and ands e), None) ts"
| "parse stack (ors, ands, None) (T_and # ts) = Inl SyntaxError"
| "parse stack (ors, ands, Some e) (T_or # ts) =
     parse stack (Some (join_or ors (join_and ands e)), None, None) ts"
| "parse stack (ors, ands, None) (T_or # ts) = Inl SyntaxError"
| "parse stack fr (T_lpar # ts) = parse (fr # stack) (None, None, None) ts"
| "parse [] fr (T_rpar # ts) = Inl SyntaxError"
| "parse ((ors', ands', cur') # stack) (ors, ands, Some e) (T_rpar # ts) =
     parse stack
       (ors', ands',
        Some (case cur' of
                None \<Rightarrow> join_or ors (join_and ands e)
              | Some f \<Rightarrow> Call f (Some (join_or ors (join_and ands e))))) ts"
| "parse ((ors', ands', cur') # stack) (None, None, None) (T_rpar # ts) =
     parse stack
       (ors', ands', Some (case cur' of None \<Rightarrow> Empty_tuple | Some f \<Rightarrow> Call f None)) ts"
| "parse (fr' # stack) (ors, ands, None) (T_rpar # ts) = Inl SyntaxError"

text \<open>
  An item name is written between double quotes as it is. The model follows Python
  only where that text is the string literal of the name: every character printable
  ASCII, none a double quote or a backslash.
\<close>

definition plain_char :: "char \<Rightarrow> bool" where
  "plain_char c =
     (32 \<le> (of_char c :: nat) \<and> (of_char c :: nat) < 127 \<and> c \<noteq> CHR 0x22 \<and> c \<noteq> CHR 0x5C)"

fun plain_piece :: "piece \<Rightarrow> bool" where
  "plain_piece (Has_text item player count) = list_all plain_char item"
| "plain_piece p = True"

text \<open>
  \<^verbatim>\<open>eval("lambda state: " + body)\<close>: the value is the function, kept as the expression
  of its body. An empty body is a syntax error.
\<close>

definition py_eval_lambda :: "piece list \<Rightarrow> py_error + py_expr" where
  "py_eval_lambda body =
     (if list_all plain_piece body then parse [] (None, None, None) (tokens_of body)
      else Inl Unmodelled_text)"

text \<open>
  Calling the function on a state. The only bound identifier is the parameter
  \<^verbatim>\<open>state\<close>; \<^verbatim>\<open>and\<close> and \<^verbatim>\<open>or\<close> return one of their operands and evaluate the second
  only when needed; the empty tuple is false; calling a truth value or a tuple raises.
\<close>

datatype py_value = Bool_value bool | Tuple_value

fun truthy :: "py_value \<Rightarrow> bool" where
  "truthy (Bool_value b) = b"
| "truthy Tuple_value = False"

fun call_rule :: "py_expr \<Rightarrow> collection_state \<Rightarrow> py_error + py_value" where
  "call_rule (Has_call recv item player count) state =
     (if recv = ''state'' then Inr (Bool_value (has state item player count)) else Inl NameError)"
| "call_rule (Constant b) state = Inr (Bool_value b)"
| "call_rule (Name s) state = Inl NameError"
| "call_rule Empty_tuple state = Inr Tuple_value"
| "call_rule (BoolAnd a b) state =
     (case call_rule a state of
        Inl err \<Rightarrow> Inl err
      | Inr v \<Rightarrow> if truthy v then call_rule b state else Inr v)"
| "call_rule (BoolOr a b) state =
     (case call_rule a state of
        Inl err \<Rightarrow> Inl err
      | Inr v \<Rightarrow> if truthy v then Inr v else call_rule b state)"
| "call_rule (Call f arg) state =
     (case call_rule f state of
        Inl err \<Rightarrow> Inl err
      | Inr v \<Rightarrow>
          (case arg of
             None \<Rightarrow> Inl TypeError
           | Some a \<Rightarrow> (case call_rule a state of Inl err \<Rightarrow> Inl err | Inr w \<Rightarrow> Inl TypeError)))"

subsection \<open>The world\<close>

datatype item_classification = Filler | Progression | Useful | Trap

text \<open>
  The data the world works on. \<open>item_dict\<close> and \<open>location_list\<close> are the catalogs of
  \<^verbatim>\<open>Items.py\<close> and \<^verbatim>\<open>Locations.py\<close>; \<open>option_flags\<close> is \<^verbatim>\<open>bool(value)\<close> for every
  name of \<^verbatim>\<open>asdict(self.options)\<close> and \<open>ending\<close> is \<^verbatim>\<open>self.options.ending.value\<close>;
  \<open>events\<close> lists the event set in its iteration order; \<open>rules\<close> lists the items of the
  rule dictionary in order.
\<close>

record world =
  player :: int
  item_dict :: "(string \<times> item_classification \<times> nat) list"
  location_list :: "string list"
  option_flags :: "string \<rightharpoonup> bool"
  ending :: int
  events :: "string list"
  rules :: "((string \<times> string) \<times> string) list"
  location_to_region :: "string \<rightharpoonup> string"

definition item_keys :: "world \<Rightarrow> string list" where
  "item_keys w = map fst (item_dict w)"

subsection \<open>\<open>convert_to_rule\<close>\<close>

text \<open>A dictionary comprehension \<^verbatim>\<open>{k: f(k) for k in keys}\<close>.\<close>

definition dict_comp :: "'k list \<Rightarrow> ('k \<Rightarrow> 'v) \<Rightarrow> ('k \<rightharpoonup> 'v)" where
  "dict_comp keys f = (\<lambda>k. if k \<in> set keys then Some (f k) else None)"

text \<open>\<open>part_lookup\<close>: a later entry of the dictionary display replaces an earlier one.\<close>

definition part_lookup :: "world \<Rightarrow> (string \<rightharpoonup> piece)" where
  "part_lookup w =
     [''('' \<mapsto> Lparen, '')'' \<mapsto> Rparen]
     ++ [''+'' \<mapsto> And_text]
     ++ [''|'' \<mapsto> Or_text]
     ++ dict_comp (item_keys w) (\<lambda>i. make_has (player w) i 1)
     ++ [''Grappling_Hook_Upgrade'' \<mapsto> make_has (player w) ''Grappling_Hook'' 2]
     ++ [''Infinite_Grapple'' \<mapsto> make_has (player w) ''Grappling_Hook'' 3]
     ++ (\<lambda>name. map_option Bool_text (option_flags w name))
     ++ dict_comp (events w) (\<lambda>i. make_has (player w) i 1)"

text \<open>\<^verbatim>\<open>str.replace\<close> of a single character.\<close>

definition replace_char :: "char \<Rightarrow> string \<Rightarrow> string \<Rightarrow> string" where
  "replace_char c r s = concat (map (\<lambda>x. if x = c then r else [x]) s)"

text \<open>
  \<^verbatim>\<open>str.split()\<close> without a separator splits at runs of whitespace and yields no empty
  string. Below 256 the whitespace characters are 9 to 13, 28 to 32, 133 and 160.
\<close>

definition is_space :: "char \<Rightarrow> bool" where
  "is_space c =
     (let n = (of_char c :: nat)
      in (9 \<le> n \<and> n \<le> 13) \<or> (28 \<le> n \<and> n \<le> 32) \<or> n = 133 \<or> n = 160)"

fun split_words :: "string \<Rightarrow> string \<Rightarrow> string list" where
  "split_words word [] = (if word = [] then [] else [word])"
| "split_words word (c # cs) =
     (if is_space c then (if word = [] then split_words [] cs else word # split_words [] cs)
      else split_words (word @ [c]) cs)"

definition split :: "string \<Rightarrow> string list" where
  "split s = split_words [] s"

text \<open>\<^verbatim>\<open>str.split(sep)\<close> with a one-character separator: never an empty list.\<close>

fun split_at :: "char \<Rightarrow> string \<Rightarrow> string list" where
  "split_at sep [] = [[]]"
| "split_at sep (c # cs) =
     (if c = sep then [] # split_at sep cs
      else (case split_at sep cs of [] \<Rightarrow> [[c]] | first # others \<Rightarrow> (c # first) # others))"

text \<open>
  \<^verbatim>\<open>int(text)\<close> on text without whitespace: an optional sign, then decimal digits,
  single underscores allowed between digits; anything else raises \<^verbatim>\<open>ValueError\<close>.
\<close>

definition is_digit :: "char \<Rightarrow> bool" where
  "is_digit c = (48 \<le> (of_char c :: nat) \<and> (of_char c :: nat) \<le> 57)"

fun digits :: "int \<Rightarrow> bool \<Rightarrow> string \<Rightarrow> int option" where
  "digits acc after_digit [] = (if after_digit then Some acc else None)"
| "digits acc after_digit (c # cs) =
     (if is_digit c then digits (10 * acc + (int (of_char c) - 48)) True cs
      else if c = CHR ''_'' \<and> after_digit then digits acc False cs
      else None)"

fun py_int :: "string \<Rightarrow> int option" where
  "py_int (c # cs) =
     (if c = CHR ''+'' then digits 0 False cs
      else if c = CHR ''-'' then map_option uminus (digits 0 False cs)
      else digits 0 False (c # cs))"
| "py_int [] = None"

text \<open>
  The loop over the parts. Its state is \<open>lambda_string\<close> without the leading
  \<^verbatim>\<open>lambda state: \<close> and the lines printed so far.
\<close>

record conversion =
  lambda_string :: "piece list"
  printed :: "string list"

fun convert_parts :: "world \<Rightarrow> conversion \<Rightarrow> string list \<Rightarrow> py_error + conversion" where
  "convert_parts w st [] = Inr st"
| "convert_parts w st (part # parts) =
     (let splitPart = split_at (CHR ''{'') part in
      case part_lookup w part of
        Some text \<Rightarrow> convert_parts w (st\<lparr>lambda_string := lambda_string st @ [text]\<rparr>) parts
      | None \<Rightarrow>
          (case splitPart of
             [] \<Rightarrow> Inl IndexError
           | first # rest \<Rightarrow>
               if first \<in> set (item_keys w) then
                 (case rest of
                    [] \<Rightarrow> Inl IndexError
                  | second # others \<Rightarrow>
                      (case split_at (CHR ''}'') second of
                         [] \<Rightarrow> Inl IndexError
                       | digits_text # tail \<Rightarrow>
                           (case py_int digits_text of
                              None \<Rightarrow> Inl ValueError
                            | Some count \<Rightarrow>
                                convert_parts w
                                  (st\<lparr>lambda_string :=
                                        lambda_string st @ [make_has (player w) first count]\<rparr>)
                                  parts)))
               else
                 convert_parts w
                   (st\<lparr>printed := printed st @ [''unexpected part of rule'', part]\<rparr>) parts))"

definition rule_parts :: "string \<Rightarrow> string list" where
  "rule_parts rule = split (replace_char (CHR '')'') '' )'' (replace_char (CHR ''('') ''( '' rule))"

definition convert_to_rule :: "world \<Rightarrow> string \<Rightarrow> py_error + py_expr" where
  "convert_to_rule w rule =
     (case convert_parts w \<lparr>lambda_string = [], printed = []\<rparr> (rule_parts rule) of
        Inl err \<Rightarrow> Inl err
      | Inr st \<Rightarrow> py_eval_lambda (lambda_string st))"

subsection \<open>\<open>stage_generate_early\<close>\<close>

text \<open>
  \<open>location_connections\<close> is a \<^verbatim>\<open>Counter\<close>: a missing key counts zero. \<^verbatim>\<open>del\<close> of a
  key that is not in the dictionary raises \<^verbatim>\<open>KeyError\<close>.
\<close>

record classification =
  location_connections :: "string \<Rightarrow> nat"
  elided :: "string \<rightharpoonup> string"

fun classify :: "world \<Rightarrow> classification \<Rightarrow> (string \<times> string) list \<Rightarrow> py_error + classification" where
  "classify w c [] = Inr c"
| "classify w c ((parent, target) # keys) =
     (if target \<notin> set (location_list w) \<and> target \<notin> set (events w) then classify w c keys
      else
        (let n = location_connections c target + 1;
             c1 = c\<lparr>location_connections := (location_connections c)(target := n)\<rparr>
         in if n = 1 then classify w (c1\<lparr>elided := (elided c1)(target \<mapsto> parent)\<rparr>) keys
            else if n = 2 then
              (if target \<in> dom (elided c1)
               then classify w (c1\<lparr>elided := (elided c1)(target := None)\<rparr>) keys
               else Inl KeyError)
            else classify w c1 keys))"

text \<open>
  \<open>extract_logic\<close> is outside the file: its result, the events and the rules, is the
  argument.
\<close>

definition stage_generate_early ::
  "world \<Rightarrow> string list \<times> ((string \<times> string) \<times> string) list \<Rightarrow> py_error + world" where
  "stage_generate_early w extracted =
     (let w1 = w\<lparr>events := fst extracted, rules := snd extracted\<rparr>
      in case classify w1 \<lparr>location_connections = (\<lambda>_. 0), elided = Map.empty\<rparr>
                (map fst (rules w1)) of
           Inl err \<Rightarrow> Inl err
         | Inr c \<Rightarrow> Inr (w1\<lparr>location_to_region := elided c\<rparr>))"

subsection \<open>Regions, locations and \<open>create_regions\<close>\<close>

text \<open>
  Modelled from the spec: the framework's \<^verbatim>\<open>Region\<close>, \<^verbatim>\<open>Location\<close>, \<^verbatim>\<open>connect\<close>,
  \<^verbatim>\<open>place_locked_item\<close> and \<^verbatim>\<open>set_rule\<close> are not part of the world's file. By the
  spec a region is "a named node" that "owns a set of outgoing edges (to other regions,
  each with an optional compiled predicate, absence means unconditional) and a set of
  owned locations/events"; a location is "(name, catalogId or none-for-event,
  owningRegion)" and "optionally holds a locked item (events only) and a gating
  predicate (defaults to always-true)".

  Region objects live in a store, a list indexed by reference, because the registry, the
  edges and the locations all refer to the same objects while \<^verbatim>\<open>connect\<close> and
  \<^verbatim>\<open>locations.append\<close> change them.
\<close>

datatype access = Default_rule | Set_rule py_expr

record item =
  item_name :: string
  item_class :: item_classification
  item_code :: "int option"
  item_player :: int

record location =
  loc_player :: int
  loc_name :: string
  address :: "int option"
  parent_region :: nat
  locked_item :: "item option"
  show_in_spoiler :: bool
  access_rule :: access

record entrance =
  connected_region :: nat
  entrance_rule :: access

record region =
  region_name :: string
  region_player :: int
  exits :: "entrance list"
  locations :: "location list"

definition new_region :: "string \<Rightarrow> int \<Rightarrow> region" where
  "new_region name p = \<lparr>region_name = name, region_player = p, exits = [], locations = []\<rparr>"

definition new_location :: "int \<Rightarrow> string \<Rightarrow> int option \<Rightarrow> nat \<Rightarrow> location" where
  "new_location p name addr parent =
     \<lparr>loc_player = p, loc_name = name, address = addr, parent_region = parent,
      locked_item = None, show_in_spoiler = True, access_rule = Default_rule\<rparr>"

definition set_rule :: "location \<Rightarrow> py_expr \<Rightarrow> location" where
  "set_rule loc rule = loc\<lparr>access_rule := Set_rule rule\<rparr>"

text \<open>Whether a state passes a gate: the default rule is always true.\<close>

fun passes :: "access \<Rightarrow> collection_state \<Rightarrow> py_error + bool" where
  "passes Default_rule state = Inr True"
| "passes (Set_rule rule) state =
     (case call_rule rule state of Inl err \<Rightarrow> Inl err | Inr v \<Rightarrow> Inr (truthy v))"

definition create_event :: "world \<Rightarrow> string \<Rightarrow> string \<Rightarrow> nat \<Rightarrow> location" where
  "create_event w locationName itemName region =
     (new_location (player w) locationName None region)
       \<lparr>locked_item := Some \<lparr>item_name = itemName, item_class = Progression,
                             item_code = None, item_player = player w\<rparr>\<rparr>"

text \<open>
  The state of \<open>create_regions\<close>: the dictionary \<open>regions\<close> from names to references in
  insertion order, the store of region objects, and \<open>location_rules\<close>, whose values are
  \<open>None\<close> (Python's) or a compiled rule.
\<close>

record build =
  regions :: "(string \<times> nat) list"
  store :: "region list"
  location_rules :: "string \<rightharpoonup> py_expr option"

text \<open>
  The interpreter bounds how deep calls may be nested, and a call beyond the bound
  raises \<^verbatim>\<open>RecursionError\<close>. \<open>frames\<close> is the number of calls that can still be
  nested, one inside the other, at the places where \<open>create_regions\<close> calls
  \<open>get_parent\<close>; \<open>region_frames\<close> is the number of nested calls that the
  framework's constructor \<^verbatim>\<open>Region(...)\<close> needs (its code is not part of the file).
  The other framework calls that \<open>create_regions\<close> makes directly are modelled from the
  spec, as operations that do not fail.
\<close>

record interpreter =
  frames :: nat
  region_frames :: nat

text \<open>
  \<open>get_parent ctor room\<close>: the call with \<open>room\<close> frames left, where the constructor
  needs \<open>ctor\<close> frames. The call takes one frame; the call of itself along
  \<open>location_to_region\<close> and the constructor run in what is left.
\<close>

fun get_parent :: "nat \<Rightarrow> nat \<Rightarrow> world \<Rightarrow> string \<Rightarrow> build \<Rightarrow> py_error + (nat \<times> build)" where
  "get_parent ctor 0 w name b = Inl RecursionError"
| "get_parent ctor (Suc room) w name b =
     (case map_of (regions b) name of
        Some r \<Rightarrow> Inr (r, b)
      | None \<Rightarrow>
          (case location_to_region w name of
             Some parent \<Rightarrow> get_parent ctor room w parent b
           | None \<Rightarrow>
               if ctor \<le> room
               then Inr (length (store b),
                      b\<lparr>regions := regions b @ [(name, length (store b))],
                        store := store b @ [new_region name (player w)]\<rparr>)
               else Inl RecursionError))"

text \<open>A call of \<open>get_parent\<close> made by \<open>create_regions\<close>.\<close>

definition call_get_parent :: "interpreter \<Rightarrow> world \<Rightarrow> string \<Rightarrow> build \<Rightarrow> py_error + (nat \<times> build)" where
  "call_get_parent py w name b = get_parent (region_frames py) (frames py) w name b"

definition connect :: "nat \<Rightarrow> nat \<Rightarrow> py_expr option \<Rightarrow> build \<Rightarrow> build" where
  "connect src dst rule b =
     b\<lparr>store := (store b)[src := (store b ! src)
          \<lparr>exits := exits (store b ! src) @
             [\<lparr>connected_region = dst,
               entrance_rule = (case rule of None \<Rightarrow> Default_rule | Some r \<Rightarrow> Set_rule r)\<rparr>]\<rparr>]\<rparr>"

definition append_location :: "nat \<Rightarrow> location \<Rightarrow> build \<Rightarrow> build" where
  "append_location r loc b =
     b\<lparr>store := (store b)[r := (store b ! r)\<lparr>locations := locations (store b ! r) @ [loc]\<rparr>]\<rparr>"

text \<open>\<^verbatim>\<open>get_parent(src).connect(get_parent(dst), rule=logic)\<close>.\<close>

definition connect_names ::
  "interpreter \<Rightarrow> world \<Rightarrow> string \<Rightarrow> string \<Rightarrow> py_expr option \<Rightarrow> build \<Rightarrow> py_error + build" where
  "connect_names py w src dst logic b =
     (case call_get_parent py w src b of
        Inl err \<Rightarrow> Inl err
      | Inr (rs, b1) \<Rightarrow>
          (case call_get_parent py w dst b1 of
             Inl err \<Rightarrow> Inl err
           | Inr (rd, b2) \<Rightarrow> Inr (connect rs rd logic b2)))"

text \<open>\<^verbatim>\<open>logic = None if rule == "" else self.convert_to_rule(rule)\<close>.\<close>

definition logic_of :: "world \<Rightarrow> string \<Rightarrow> py_error + py_expr option" where
  "logic_of w rule =
     (if rule = [] then Inr None
      else (case convert_to_rule w rule of Inl err \<Rightarrow> Inl err | Inr f \<Rightarrow> Inr (Some f)))"

text \<open>The body of the loop over \<^verbatim>\<open>self.rules.items()\<close>.\<close>

definition rule_step ::
  "interpreter \<Rightarrow> world \<Rightarrow> build \<Rightarrow> (string \<times> string) \<times> string \<Rightarrow> py_error + build" where
  "rule_step py w b entry =
     (case entry of
        ((parent, target), rule) \<Rightarrow>
          (case logic_of w rule of
             Inl err \<Rightarrow> Inl err
           | Inr logic \<Rightarrow>
               if target \<in> dom (location_to_region w)
               then Inr (b\<lparr>location_rules := (location_rules b)(target \<mapsto> logic)\<rparr>)
               else connect_names py w parent target logic b))"

text \<open>A \<^verbatim>\<open>for\<close> loop whose body can raise.\<close>

fun for_each :: "('s \<Rightarrow> 'a \<Rightarrow> py_error + 's) \<Rightarrow> 's \<Rightarrow> 'a list \<Rightarrow> py_error + 's" where
  "for_each body s [] = Inr s"
| "for_each body s (x # xs) =
     (case body s x of Inl err \<Rightarrow> Inl err | Inr s1 \<Rightarrow> for_each body s1 xs)"

text \<open>
  \<^verbatim>\<open>rule = location_rules.get(name)\<close> is \<open>None\<close> for a missing key and for a stored
  \<open>None\<close>; \<^verbatim>\<open>if rule:\<close> holds for a function and fails for \<open>None\<close>.
\<close>

definition attach_rule :: "build \<Rightarrow> string \<Rightarrow> location \<Rightarrow> location" where
  "attach_rule b name loc =
     (case location_rules b name of
        Some (Some rule) \<Rightarrow> set_rule loc rule
      | _ \<Rightarrow> loc)"

text \<open>The body of the loop over \<^verbatim>\<open>self.events\<close>.\<close>

definition event_step :: "interpreter \<Rightarrow> world \<Rightarrow> build \<Rightarrow> string \<Rightarrow> py_error + build" where
  "event_step py w b event =
     (case call_get_parent py w event b of
        Inl err \<Rightarrow> Inl err
      | Inr (r, b1) \<Rightarrow>
          (let eventLocation = (create_event w event event r)\<lparr>show_in_spoiler := False\<rparr>;
               eventLocation = attach_rule b1 event eventLocation
           in case call_get_parent py w event b1 of
                Inl err \<Rightarrow> Inl err
              | Inr (r2, b2) \<Rightarrow> Inr (append_location r2 eventLocation b2)))"

text \<open>
  \<^verbatim>\<open>location_name_to_id\<close> numbers \<open>location_list\<close> from \<open>base_id\<close>; a name listed twice
  keeps its first place among the keys and its last number.
\<close>

definition base_id :: int where
  "base_id = 144000000"

definition location_name_to_id :: "world \<Rightarrow> (string \<rightharpoonup> int)" where
  "location_name_to_id w =
     map_of (rev (zip (location_list w) (map (\<lambda>i. base_id + int i) [0..<length (location_list w)])))"

definition location_keys :: "world \<Rightarrow> string list" where
  "location_keys w = rev (remdups (rev (location_list w)))"

text \<open>The body of the loop over \<^verbatim>\<open>self.location_name_to_id.keys()\<close>.\<close>

definition location_step :: "interpreter \<Rightarrow> world \<Rightarrow> build \<Rightarrow> string \<Rightarrow> py_error + build" where
  "location_step py w b name =
     (case call_get_parent py w name b of
        Inl err \<Rightarrow> Inl err
      | Inr (r, b1) \<Rightarrow>
          (let loc = new_location (player w) name (location_name_to_id w name) r;
               loc = attach_rule b1 name loc
           in case call_get_parent py w name b1 of
                Inl err \<Rightarrow> Inl err
              | Inr (r2, b2) \<Rightarrow> Inr (append_location r2 loc b2)))"

text \<open>
  \<open>create_regions\<close>; the result holds the regions handed to the multiworld, the objects
  of \<^verbatim>\<open>regions.values()\<close> in order.
\<close>

definition create_regions :: "interpreter \<Rightarrow> world \<Rightarrow> py_error + build" where
  "create_regions py w =
     (case connect_names py w ''Menu'' ''rm_start_0[100390]'' None
             \<lparr>regions = [], store = [], location_rules = Map.empty\<rparr> of
        Inl err \<Rightarrow> Inl err
      | Inr b0 \<Rightarrow>
          (case for_each (rule_step py w) b0 (rules w) of
             Inl err \<Rightarrow> Inl err
           | Inr b1 \<Rightarrow>
               (case for_each (event_step py w) b1 (events w) of
                  Inl err \<Rightarrow> Inl err
                | Inr b2 \<Rightarrow> for_each (location_step py w) b2 (location_keys w))))"

subsection \<open>\<open>set_rules\<close>\<close>

text \<open>
  The five values of the \<^verbatim>\<open>Ending\<close> option are declared in \<^verbatim>\<open>Options.py\<close>, outside
  the file; they are parameters here.
\<close>

record ending_values =
  option_ending_a :: int
  option_ending_b :: int
  option_ending_c :: int
  option_ending_d :: int
  option_ending_e :: int

definition goal_event :: "ending_values \<Rightarrow> world \<Rightarrow> string" where
  "goal_event Ending w =
     (if ending w = option_ending_a Ending then ''e_goal_a''
      else if ending w = option_ending_b Ending then ''e_goal_b''
      else if ending w = option_ending_c Ending then ''e_goal_c''
      else if ending w = option_ending_d Ending then ''e_goal_d''
      else if ending w = option_ending_e Ending then ''e_goal_e''
      else ''e_goal_e'')"

text \<open>The completion condition that \<open>set_rules\<close> installs for the player.\<close>

definition set_rules :: "ending_values \<Rightarrow> world \<Rightarrow> collection_state \<Rightarrow> bool" where
  "set_rules Ending w = (\<lambda>state. has state (goal_event Ending w) (player w) None)"

subsection \<open>Notions used in the statements\<close>

text \<open>A known name: a location of the catalog or an event.\<close>

definition known :: "world \<Rightarrow> string \<Rightarrow> bool" where
  "known w t = (t \<in> set (location_list w) \<or> t \<in> set (events w))"

text \<open>The rule keys that target a name, in the order of the table.\<close>

definition targeting :: "string \<Rightarrow> (string \<times> string) list \<Rightarrow> (string \<times> string) list" where
  "targeting t keys = filter (\<lambda>k. snd k = t) keys"

text \<open>
  What holds between the keys seen so far and the state of the classification: the
  counter of a known name is the number of keys seen that target it, and a name is
  mapped to \<open>p\<close> exactly when it is known and \<open>(p, name)\<close> is the only key seen that
  targets it.
\<close>

definition classified :: "world \<Rightarrow> (string \<times> string) list \<Rightarrow> classification \<Rightarrow> bool" where
  "classified w seen c =
     ((\<forall>t. location_connections c t = (if known w t then length (targeting t seen) else 0))
      \<and> (\<forall>t p. elided c t = Some p \<longleftrightarrow> known w t \<and> targeting t seen = [(p, t)]))"

text \<open>
  A word: a non-empty text without whitespace and parentheses, which \<open>rule_parts\<close>
  leaves in one piece.
\<close>

definition word :: "string \<Rightarrow> bool" where
  "word s = (s \<noteq> [] \<and> list_all (\<lambda>c. \<not> is_space c \<and> c \<noteq> CHR ''('' \<and> c \<noteq> CHR '')'') s)"

text \<open>No item, event or option is named like a parenthesis or an operator.\<close>

definition reserved_free :: "world \<Rightarrow> bool" where
  "reserved_free w =
     list_all (\<lambda>t. t \<notin> set (item_keys w) \<and> t \<notin> set (events w) \<and> option_flags w t = None)
       [''('', '')'', ''+'', ''|'']"

text \<open>
  An item name that a rule can use as a token and that compiles to a check of that
  item: a word of the catalog whose text is its own string literal, not the name of an
  option and not one of the two aliases.
\<close>

definition item_token :: "world \<Rightarrow> string \<Rightarrow> bool" where
  "item_token w a =
     (a \<in> set (item_keys w) \<and> word a \<and> list_all plain_char a
      \<and> option_flags w a = None
      \<and> a \<noteq> ''Grappling_Hook_Upgrade'' \<and> a \<noteq> ''Infinite_Grapple'')"

subsection \<open>Example data\<close>

definition example_world :: world where
  "example_world =
     \<lparr>player = 1,
      item_dict = [(''A'', Progression, 1), (''B'', Progression, 1), (''C'', Progression, 1),
                   (''Key'', Progression, 3), (''Grappling_Hook'', Progression, 3)],
      location_list = [''L1'', ''L2'', ''L3''],
      option_flags = [''hard_maya'' \<mapsto> True],
      ending = 0,
      events = [''e_goal_a''],
      rules = [],
      location_to_region = Map.empty\<rparr>"

text \<open>The state of player and item counts in which the listed items are held.\<close>

definition holding :: "string list \<Rightarrow> collection_state" where
  "holding items = (\<lambda>p i. int (count_list items i))"






text \<open>
  The registry and the store fit the elision mapping: every registered name has no
  elision mapping, its reference points at a region object of that name, and no region
  object bears a name that has an elision mapping.
\<close>

definition registry_ok :: "world \<Rightarrow> build \<Rightarrow> bool" where
  "registry_ok w b =
     (list_all (\<lambda>entry. location_to_region w (fst entry) = None
                      \<and> snd entry < length (store b)
                      \<and> region_name (store b ! snd entry) = fst entry)
        (regions b)
      \<and> list_all (\<lambda>x. location_to_region w (region_name x) = None) (store b))"

text \<open>
  \<open>elision_path w name n root\<close>: the chain of recorded parents of \<open>name\<close> ends after
  \<open>n\<close> links at \<open>root\<close>, the first name on it without an elision mapping. A name on
  a cycle of mappings has no such chain.
\<close>

inductive elision_path :: "world \<Rightarrow> string \<Rightarrow> nat \<Rightarrow> string \<Rightarrow> bool" for w where
  root: "location_to_region w name = None \<Longrightarrow> elision_path w name 0 name"
| step: "location_to_region w name = Some parent \<Longrightarrow> elision_path w parent n r
          \<Longrightarrow> elision_path w name (Suc n) r"

text \<open>
  A name within reach: its chain of recorded parents ends, and the frames suffice for
  the calls of \<open>get_parent\<close> along the chain and for the constructor at its end.
\<close>

definition within_reach :: "interpreter \<Rightarrow> world \<Rightarrow> string \<Rightarrow> bool" where
  "within_reach py w name =
     (\<exists>n root. elision_path w name n root \<and> n + region_frames py < frames py)"

text \<open>
  A world that \<open>create_regions\<close> can work off: every rule compiles, and the origin, the
  start, the parent of every key whose target has no elision mapping, every event and
  every location are within reach.
\<close>

definition workable :: "interpreter \<Rightarrow> world \<Rightarrow> bool" where
  "workable py w =
     (within_reach py w ''Menu'' \<and> within_reach py w ''rm_start_0[100390]''
      \<and> (\<forall>entry \<in> set (rules w).
            (\<exists>logic. logic_of w (snd entry) = Inr logic)
            \<and> (snd (fst entry) \<in> dom (location_to_region w)
                 \<or> within_reach py w (fst (fst entry))))
      \<and> (\<forall>event \<in> set (events w). within_reach py w event)
      \<and> (\<forall>name \<in> set (location_list w). within_reach py w name))"

text \<open>Example data for the region graph.\<close>

definition chain_world :: world where
  "chain_world = example_world\<lparr>location_to_region := [''L2'' \<mapsto> ''L1'', ''L3'' \<mapsto> ''L2'']\<rparr>"

text \<open>
  A world whose key \<^verbatim>\<open>(L1, X)\<close> has a parent on a cycle of recorded parents.
\<close>

definition cycle_parent_world :: world where
  "cycle_parent_world =
     example_world\<lparr>rules := [((''L1'', ''L1''), []), ((''L1'', ''X''), [])],
                    location_to_region := [''L1'' \<mapsto> ''L1'']\<rparr>"

definition self_parent_world :: world where
  "self_parent_world =
     example_world\<lparr>events := [], rules := [((''L1'', ''L1''), [])],
                    location_to_region := [''L1'' \<mapsto> ''L1'']\<rparr>"

definition two_parent_table :: "((string \<times> string) \<times> string) list" where
  "two_parent_table =
     [((''R'', ''L1''), ''A''), ((''S'', ''L1''), []), ((''L1'', ''L2''), ''B''),
      ((''L2'', ''L3''), [])]"

definition two_parent_world :: world where
  "two_parent_world =
     example_world
       \<lparr>rules := two_parent_table,
        location_to_region := [''L2'' \<mapsto> ''L1'', ''L3'' \<mapsto> ''L2'']\<rparr>"

text \<open>A world whose rule \<^verbatim>\<open>A+B\<close> has no blanks around its operator.\<close>

definition unspaced_world :: world where
  "unspaced_world = example_world\<lparr>rules := [((''R'', ''L1''), ''A+B''), ((''S'', ''L1''), ''A'')]\<rparr>"

text \<open>
  A world with a chain of 1100 recorded parents: the name of \<open>k\<close> letters is mapped to
  the name of \<open>k - 1\<close> letters.
\<close>

definition long_chain_world :: world where
  "long_chain_world =
     example_world
       \<lparr>location_to_region :=
          (\<lambda>name. if name \<noteq> [] \<and> length name \<le> 1100 \<and> list_all (\<lambda>c. c = CHR ''x'') name
                   then Some (tl name) else None)\<rparr>"

definition long_name :: string where
  "long_name = replicate 1100 (CHR ''x'')"

definition empty_build :: build where
  "empty_build = \<lparr>regions = [], store = [], location_rules = Map.empty\<rparr>"

text \<open>An interpreter with a thousand frames left and a constructor of one frame.\<close>

definition roomy :: interpreter where
  "roomy = \<lparr>frames = 1000, region_frames = 1\<rparr>"

text \<open>
  \<open>grows b b'\<close>: every registered name keeps its reference, every region object
  keeps its place and name, and no exit or location is lost.
\<close>

definition grows :: "build \<Rightarrow> build \<Rightarrow> bool" where
  "grows b b' =
     ((\<forall>m r. map_of (regions b) m = Some r \<longrightarrow> map_of (regions b') m = Some r)
      \<and> length (store b) \<le> length (store b')
      \<and> (\<forall>r < length (store b).
            region_name (store b' ! r) = region_name (store b ! r)
            \<and> set (exits (store b ! r)) \<subseteq> set (exits (store b' ! r))
            \<and> set (locations (store b ! r)) \<subseteq> set (locations (store b' ! r))))"

text \<open>The exits and the locations a reference had in a state; none before its creation.\<close>

definition exits_at :: "build \<Rightarrow> nat \<Rightarrow> entrance list" where
  "exits_at b r = (if r < length (store b) then exits (store b ! r) else [])"

definition locations_at :: "build \<Rightarrow> nat \<Rightarrow> location list" where
  "locations_at b r = (if r < length (store b) then locations (store b ! r) else [])"

text \<open>The store of \<open>b'\<close> is the store of \<open>b\<close> followed by new, empty regions.\<close>

definition fresh_tail :: "build \<Rightarrow> build \<Rightarrow> bool" where
  "fresh_tail b b' =
     (\<exists>news. store b' = store b @ news
        \<and> list_all (\<lambda>x. exits x = [] \<and> locations x = []) news)"

text \<open>The gate that \<^verbatim>\<open>connect\<close> gives an exit for a rule value.\<close>

definition gate_of :: "py_expr option \<Rightarrow> access" where
  "gate_of logic = (case logic of None \<Rightarrow> Default_rule | Some r \<Rightarrow> Set_rule r)"

text \<open>
  The graph has an edge from the region named \<open>src\<close> to the region named \<open>dst\<close> that
  carries \<open>logic\<close>.
\<close>

definition edge_in :: "build \<Rightarrow> string \<Rightarrow> string \<Rightarrow> py_expr option \<Rightarrow> bool" where
  "edge_in b src dst logic =
     (case (map_of (regions b) src, map_of (regions b) dst) of
        (Some rs, Some rd) \<Rightarrow>
          rs < length (store b) \<and> rd < length (store b)
          \<and> region_name (store b ! rs) = src \<and> region_name (store b ! rd) = dst
          \<and> \<lparr>connected_region = rd, entrance_rule = gate_of logic\<rparr> \<in> set (exits (store b ! rs))
      | _ \<Rightarrow> False)"

text \<open>
  The location \<open>loc\<close> stands in the region named \<open>root\<close>, and it knows that region as
  its parent.
\<close>

definition placed_in :: "build \<Rightarrow> string \<Rightarrow> (nat \<Rightarrow> location) \<Rightarrow> bool" where
  "placed_in b root loc =
     (case map_of (regions b) root of
        Some r \<Rightarrow>
          r < length (store b) \<and> region_name (store b ! r) = root
          \<and> loc r \<in> set (locations (store b ! r))
      | None \<Rightarrow> False)"

section \<open>Properties\<close>

subsection \<open>Goal selection\<close>

text \<open>
  C9. When the five values of the ending option are pairwise distinct, each of them
  selects its own goal event, the five event names are pairwise distinct, and every other
  value selects the event of ending E. The event created for the selected name holds a
  locked item of that very name for the player, and the completion condition is true on
  a state exactly when the state has at least one such item for the player.
\<close>

theorem goal_selection:
  assumes "distinct [option_ending_a E, option_ending_b E, option_ending_c E,
                     option_ending_d E, option_ending_e E]"
  shows "goal_event E (w\<lparr>ending := option_ending_a E\<rparr>) = ''e_goal_a''
       \<and> goal_event E (w\<lparr>ending := option_ending_b E\<rparr>) = ''e_goal_b''
       \<and> goal_event E (w\<lparr>ending := option_ending_c E\<rparr>) = ''e_goal_c''
       \<and> goal_event E (w\<lparr>ending := option_ending_d E\<rparr>) = ''e_goal_d''
       \<and> goal_event E (w\<lparr>ending := option_ending_e E\<rparr>) = ''e_goal_e''
       \<and> distinct [''e_goal_a'', ''e_goal_b'', ''e_goal_c'', ''e_goal_d'', ''e_goal_e'']
       \<and> (ending w \<notin> {option_ending_a E, option_ending_b E, option_ending_c E,
                        option_ending_d E, option_ending_e E}
            \<longrightarrow> goal_event E w = ''e_goal_e'')
       \<and> locked_item (create_event w (goal_event E w) (goal_event E w) r) =
            Some \<lparr>item_name = goal_event E w, item_class = Progression,
                  item_code = None, item_player = player w\<rparr>
       \<and> (set_rules E w state \<longleftrightarrow> state (player w) (goal_event E w) \<ge> 1)"
  using assms
  by (auto simp add: goal_event_def set_rules_def has_def create_event_def new_location_def)

theorem goal_selection_witness:
  "goal_event
     \<lparr>option_ending_a = 0, option_ending_b = 1, option_ending_c = 2,
      option_ending_d = 3, option_ending_e = 4\<rparr>
     \<lparr>player = 1, item_dict = [], location_list = [], option_flags = Map.empty, ending = 7,
      events = [], rules = [], location_to_region = Map.empty\<rparr> = ''e_goal_e''
   \<and> goal_event
     \<lparr>option_ending_a = 0, option_ending_b = 1, option_ending_c = 2,
      option_ending_d = 3, option_ending_e = 4\<rparr>
     \<lparr>player = 1, item_dict = [], location_list = [], option_flags = Map.empty, ending = 1,
      events = [], rules = [], location_to_region = Map.empty\<rparr> = ''e_goal_b''"
  using goal_selection
    [of "\<lparr>option_ending_a = 0, option_ending_b = 1, option_ending_c = 2,
          option_ending_d = 3, option_ending_e = 4\<rparr>"
        "\<lparr>player = 1, item_dict = [], location_list = [], option_flags = Map.empty,
          ending = 7, events = [], rules = [], location_to_region = Map.empty\<rparr>"]
  by simp

subsection \<open>Classification of the targets\<close>

lemma targeting_snoc:
  "targeting t (seen @ [(p, u)]) = (if u = t then targeting t seen @ [(p, u)] else targeting t seen)"
  by (simp add: targeting_def)

lemma targeting_single:
  assumes "length (targeting t seen) = 1"
  shows "\<exists>q. targeting t seen = [(q, t)]"
proof -
  from assms obtain k where k: "targeting t seen = [k]"
    by (cases "targeting t seen") auto
  then have "k \<in> set (targeting t seen)" by simp
  then have "snd k = t" by (simp add: targeting_def)
  with k show ?thesis by (cases k) auto
qed

lemma classify_step:
  assumes inv: "classified w seen c"
  shows "\<exists>c1. classify w c ((p, t) # keys) = classify w c1 keys
           \<and> classified w (seen @ [(p, t)]) c1"
proof (cases "known w t")
  case False
  then have "classify w c ((p, t) # keys) = classify w c keys"
    by (simp add: known_def)
  moreover from inv False have "classified w (seen @ [(p, t)]) c"
    by (auto simp: classified_def targeting_snoc)
  ultimately show ?thesis by blast
next
  case True
  then have kn: "\<not> (t \<notin> set (location_list w) \<and> t \<notin> set (events w))"
    by (simp add: known_def)
  from inv True have cnt: "location_connections c t = length (targeting t seen)"
    by (simp add: classified_def)
  consider (first) "length (targeting t seen) = 0" | (second) "length (targeting t seen) = 1"
    | (later) "length (targeting t seen) \<ge> 2" by linarith
  then show ?thesis
  proof cases
    case first
    let ?c1 = "c\<lparr>location_connections := (location_connections c)(t := Suc 0),
                  elided := (elided c)(t \<mapsto> p)\<rparr>"
    from first cnt kn have "classify w c ((p, t) # keys) = classify w ?c1 keys"
      by (auto simp: Let_def)
    moreover from inv first True have "classified w (seen @ [(p, t)]) ?c1"
      by (auto simp: classified_def targeting_snoc)
    ultimately show ?thesis by blast
  next
    case second
    then obtain q where q: "targeting t seen = [(q, t)]"
      using targeting_single by blast
    with inv True have el: "elided c t = Some q" by (simp add: classified_def)
    let ?c1 = "c\<lparr>location_connections := (location_connections c)(t := Suc (Suc 0)),
                  elided := (elided c)(t := None)\<rparr>"
    from second cnt kn el have "classify w c ((p, t) # keys) = classify w ?c1 keys"
      by (auto simp: Let_def dom_def)
    moreover from inv q True have "classified w (seen @ [(p, t)]) ?c1"
      by (auto simp: classified_def targeting_snoc)
    ultimately show ?thesis by blast
  next
    case later
    let ?c1 = "c\<lparr>location_connections := (location_connections c)(t := location_connections c t + 1)\<rparr>"
    from later cnt kn have "classify w c ((p, t) # keys) = classify w ?c1 keys"
      by (auto simp: Let_def)
    moreover from inv later True have "classified w (seen @ [(p, t)]) ?c1"
      by (auto simp: classified_def targeting_snoc)
    ultimately show ?thesis by blast
  qed
qed

lemma classify_classified:
  "classified w seen c \<Longrightarrow> \<exists>c1. classify w c keys = Inr c1 \<and> classified w (seen @ keys) c1"
proof (induction keys arbitrary: c seen)
  case Nil
  then show ?case by simp
next
  case (Cons k keys)
  obtain p t where k: "k = (p, t)" by (cases k)
  from classify_step[OF Cons.prems, of p t keys] obtain c1
    where c1: "classify w c ((p, t) # keys) = classify w c1 keys"
      and inv1: "classified w (seen @ [(p, t)]) c1" by blast
  from Cons.IH[OF inv1] obtain c2
    where "classify w c1 keys = Inr c2" and "classified w ((seen @ [(p, t)]) @ keys) c2" by blast
  with c1 k show ?case by simp
qed

lemma classified_start:
  "classified w [] \<lparr>location_connections = (\<lambda>_. 0), elided = Map.empty\<rparr>"
  by (simp add: classified_def targeting_def)

text \<open>
  C1. For every event list and rule table, \<open>stage_generate_early\<close> finishes without
  raising (the \<^verbatim>\<open>del\<close> always finds its key), and afterwards a name \<open>t\<close> is mapped
  to \<open>p\<close> in \<open>location_to_region\<close> if and only if \<open>t\<close> is a location or an event
  name and \<open>(p, t)\<close> is the one and only rule key that targets \<open>t\<close>. Since this
  holds for every table, it holds after every prefix of one: a target is mapped after
  its first key, unmapped after its second, stays unmapped after any further key, and a
  name that is neither a location nor an event is never mapped.
\<close>

theorem stage_generate_early_classifies:
  "\<exists>w1. stage_generate_early w (evs, rs) = Inr w1
      \<and> events w1 = evs \<and> rules w1 = rs
      \<and> (\<forall>t p. location_to_region w1 t = Some p \<longleftrightarrow>
            (t \<in> set (location_list w) \<or> t \<in> set evs)
            \<and> filter (\<lambda>k. snd k = t) (map fst rs) = [(p, t)])"
proof -
  let ?w1 = "w\<lparr>events := evs, rules := rs\<rparr>"
  from classify_classified[OF classified_start, of ?w1 "map fst rs"] obtain c
    where c: "classify ?w1 \<lparr>location_connections = (\<lambda>_. 0), elided = Map.empty\<rparr> (map fst rs) = Inr c"
      and inv: "classified ?w1 (map fst rs) c" by auto
  from c have "stage_generate_early w (evs, rs) = Inr (?w1\<lparr>location_to_region := elided c\<rparr>)"
    by (simp add: stage_generate_early_def)
  moreover from inv have "\<forall>t p. elided c t = Some p \<longleftrightarrow>
            (t \<in> set (location_list w) \<or> t \<in> set evs)
            \<and> filter (\<lambda>k. snd k = t) (map fst rs) = [(p, t)]"
    by (simp add: classified_def known_def targeting_def)
  ultimately show ?thesis by simp
qed

theorem stage_generate_early_classifies_witness:
  "\<exists>w1. stage_generate_early
          \<lparr>player = 1, item_dict = [], location_list = [''L1'', ''L2'', ''L3''],
           option_flags = Map.empty, ending = 0, events = [], rules = [],
           location_to_region = Map.empty\<rparr>
          ([''E''],
           [((''R'', ''L1''), ''''), ((''R'', ''L2''), ''''), ((''S'', ''L2''), ''''),
            ((''L1'', ''E''), ''''), ((''R'', ''X''), ''''),
            ((''R'', ''L3''), ''''), ((''S'', ''L3''), ''''), ((''T'', ''L3''), '''')]) = Inr w1
      \<and> location_to_region w1 ''L1'' = Some ''R''
      \<and> location_to_region w1 ''E'' = Some ''L1''
      \<and> location_to_region w1 ''L2'' = None
      \<and> location_to_region w1 ''L3'' = None
      \<and> location_to_region w1 ''X'' = None"
proof -
  let ?w = "\<lparr>player = 1, item_dict = [], location_list = [''L1'', ''L2'', ''L3''],
           option_flags = Map.empty, ending = 0, events = [], rules = [],
           location_to_region = Map.empty\<rparr>"
  let ?rs = "[((''R'', ''L1''), ''''::string), ((''R'', ''L2''), ''''), ((''S'', ''L2''), ''''),
            ((''L1'', ''E''), ''''), ((''R'', ''X''), ''''),
            ((''R'', ''L3''), ''''), ((''S'', ''L3''), ''''), ((''T'', ''L3''), '''')]"
  from stage_generate_early_classifies[of ?w "[''E'']" ?rs] obtain w1
    where H: "stage_generate_early ?w ([''E''], ?rs) = Inr w1
      \<and> events w1 = [''E''] \<and> rules w1 = ?rs
      \<and> (\<forall>t p. location_to_region w1 t = Some p \<longleftrightarrow>
            (t \<in> set (location_list ?w) \<or> t \<in> set [''E''])
            \<and> filter (\<lambda>k. snd k = t) (map fst ?rs) = [(p, t)])" ..
  then have iff: "\<And>t p. location_to_region w1 t = Some p \<longleftrightarrow>
            (t \<in> set (location_list ?w) \<or> t \<in> set [''E''])
            \<and> filter (\<lambda>k. snd k = t) (map fst ?rs) = [(p, t)]" by blast
  have "location_to_region w1 ''L1'' = Some ''R''" by (simp add: iff)
  moreover have "location_to_region w1 ''E'' = Some ''L1''" by (simp add: iff)
  moreover have "location_to_region w1 ''L2'' = None"
    by (cases "location_to_region w1 ''L2''") (simp_all add: iff)
  moreover have "location_to_region w1 ''L3'' = None"
    by (cases "location_to_region w1 ''L3''") (simp_all add: iff)
  moreover have "location_to_region w1 ''X'' = None"
    by (cases "location_to_region w1 ''X''") (simp_all add: iff)
  ultimately show ?thesis using H by blast
qed

subsection \<open>The rule compiler\<close>

lemma is_space_blank: "is_space (CHR '' '')"
  by (simp add: is_space_def)

lemma replace_char_Nil: "replace_char c r [] = []"
  by (simp add: replace_char_def)

lemma replace_char_Cons:
  "replace_char c r (x # xs) = (if x = c then r else [x]) @ replace_char c r xs"
  by (simp add: replace_char_def)

lemma replace_char_append:
  "replace_char c r (xs @ ys) = replace_char c r xs @ replace_char c r ys"
  by (simp add: replace_char_def)

lemma replace_char_absent: "c \<notin> set xs \<Longrightarrow> replace_char c r xs = xs"
  by (induction xs) (auto simp: replace_char_Nil replace_char_Cons)

lemma word_no_paren: "word a \<Longrightarrow> CHR ''('' \<notin> set a \<and> CHR '')'' \<notin> set a"
  by (auto simp: word_def list_all_iff)

lemma pad_word:
  "word a \<Longrightarrow> replace_char (CHR '')'') '' )'' (replace_char (CHR ''('') ''( '' a) = a"
  by (simp add: replace_char_absent word_no_paren)

lemma split_words_run:
  "list_all (\<lambda>c. \<not> is_space c) a \<Longrightarrow> split_words acc (a @ rest) = split_words (acc @ a) rest"
  by (induction a arbitrary: acc) auto

lemma word_no_space: "word a \<Longrightarrow> list_all (\<lambda>c. \<not> is_space c) a"
  by (auto simp: word_def list_all_iff)

lemma split_words_word_blank:
  assumes "word a"
  shows "split_words [] (a @ CHR '' '' # rest) = a # split_words [] rest"
proof -
  from assms have "a \<noteq> []" by (simp add: word_def)
  then show ?thesis
    using split_words_run[OF word_no_space[OF assms], of "[]" "CHR '' '' # rest"]
    by (simp add: is_space_blank)
qed

lemma split_words_word_end:
  assumes "word a"
  shows "split_words [] a = [a]"
proof -
  from assms have "a \<noteq> []" by (simp add: word_def)
  then show ?thesis
    using split_words_run[OF word_no_space[OF assms], of "[]" "[]"] by simp
qed

lemma split_words_blank: "split_words [] (CHR '' '' # rest) = split_words [] rest"
  by (simp add: is_space_blank)

lemma split_words_char_blank:
  "\<not> is_space c \<Longrightarrow> split_words [] (c # CHR '' '' # rest) = [c] # split_words [] rest"
  by (simp add: is_space_blank)

lemma split_words_char_end:
  "\<not> is_space c \<Longrightarrow> split_words [] [c] = [[c]]"
  by simp

lemma not_space_symbols:
  "\<not> is_space (CHR ''+'')" "\<not> is_space (CHR ''|'')" "\<not> is_space (CHR ''('')" "\<not> is_space (CHR '')'')"
  by (simp_all add: is_space_def)

lemma parts_and:
  assumes "word a" "word b"
  shows "rule_parts (a @ '' + '' @ b) = [a, ''+'', b]"
  using assms
  by (simp add: rule_parts_def split_def replace_char_append replace_char_Cons replace_char_Nil
      pad_word split_words_word_blank split_words_char_blank split_words_word_end not_space_symbols
      del: split_words.simps)

lemma parts_or:
  assumes "word a" "word b"
  shows "rule_parts (a @ '' | '' @ b) = [a, ''|'', b]"
  using assms
  by (simp add: rule_parts_def split_def replace_char_append replace_char_Cons replace_char_Nil
      pad_word split_words_word_blank split_words_char_blank split_words_word_end not_space_symbols
      del: split_words.simps)

lemma parts_or_and:
  assumes "word a" "word b" "word c"
  shows "rule_parts (a @ '' | '' @ b @ '' + '' @ c) = [a, ''|'', b, ''+'', c]"
  using assms
  by (simp add: rule_parts_def split_def replace_char_append replace_char_Cons replace_char_Nil
      pad_word split_words_word_blank split_words_char_blank split_words_word_end not_space_symbols
      del: split_words.simps)

lemma parts_group:
  assumes "word a" "word b" "word c"
  shows "rule_parts (''('' @ a @ '' + '' @ b @ '') | '' @ c) = [''('', a, ''+'', b, '')'', ''|'', c]"
  using assms
  by (simp add: rule_parts_def split_def replace_char_append replace_char_Cons replace_char_Nil
      pad_word split_words_word_blank split_words_char_blank split_words_word_end not_space_symbols
      del: split_words.simps)


lemma part_lookup_item:
  "item_token w a \<Longrightarrow> part_lookup w a = Some (Has_text a (player w) None)"
  by (auto simp: item_token_def part_lookup_def map_add_def dict_comp_def make_has_def
      split: option.splits)

lemma part_lookup_reserved:
  assumes "reserved_free w"
  shows "part_lookup w ''('' = Some Lparen" "part_lookup w '')'' = Some Rparen"
    "part_lookup w ''+'' = Some And_text" "part_lookup w ''|'' = Some Or_text"
  using assms
  by (auto simp: reserved_free_def part_lookup_def map_add_def dict_comp_def
      split: option.splits)

lemma item_token_plain: "item_token w a \<Longrightarrow> list_all plain_char a"
  by (simp add: item_token_def)

lemma item_token_word: "item_token w a \<Longrightarrow> word a"
  by (simp add: item_token_def)

lemma convert_and:
  assumes "reserved_free w" "item_token w a" "item_token w b"
  shows "convert_to_rule w (a @ '' + '' @ b) =
           Inr (BoolAnd (Has_call ''state'' a (player w) None) (Has_call ''state'' b (player w) None))"
  using assms
  by (simp add: convert_to_rule_def parts_and[simplified] item_token_word part_lookup_item
      part_lookup_reserved py_eval_lambda_def item_token_plain join_and_def join_or_def)

lemma convert_or:
  assumes "reserved_free w" "item_token w a" "item_token w b"
  shows "convert_to_rule w (a @ '' | '' @ b) =
           Inr (BoolOr (Has_call ''state'' a (player w) None) (Has_call ''state'' b (player w) None))"
  using assms
  by (simp add: convert_to_rule_def parts_or[simplified] item_token_word part_lookup_item
      part_lookup_reserved py_eval_lambda_def item_token_plain join_and_def join_or_def)

lemma convert_group:
  assumes "reserved_free w" "item_token w a" "item_token w b" "item_token w c"
  shows "convert_to_rule w (''('' @ a @ '' + '' @ b @ '') | '' @ c) =
           Inr (BoolOr (BoolAnd (Has_call ''state'' a (player w) None)
                                (Has_call ''state'' b (player w) None))
                       (Has_call ''state'' c (player w) None))"
  using assms
  by (simp add: convert_to_rule_def parts_group[simplified] item_token_word part_lookup_item
      part_lookup_reserved py_eval_lambda_def item_token_plain join_and_def join_or_def)

lemma convert_or_and:
  assumes "reserved_free w" "item_token w a" "item_token w b" "item_token w c"
  shows "convert_to_rule w (a @ '' | '' @ b @ '' + '' @ c) =
           Inr (BoolOr (Has_call ''state'' a (player w) None)
                       (BoolAnd (Has_call ''state'' b (player w) None)
                                (Has_call ''state'' c (player w) None)))"
  using assms
  by (simp add: convert_to_rule_def parts_or_and[simplified] item_token_word part_lookup_item
      part_lookup_reserved py_eval_lambda_def item_token_plain join_and_def join_or_def)

text \<open>
  C4 (amended). Let no item, event or option be named like a parenthesis or operator,
  and let A, B, C be item tokens. When the operators stand between blanks, the rule
  \<^verbatim>\<open>A + B\<close> compiles to a predicate that is true on a state exactly when the player has
  at least one A and at least one B, \<^verbatim>\<open>A | B\<close> to one that is true exactly when the
  player has an A or a B, and \<^verbatim>\<open>(A + B) | C\<close> to one that is true exactly when the
  player has A and B, or has C.
\<close>

theorem and_or_rules:
  assumes "reserved_free w" "item_token w a" "item_token w b" "item_token w c"
  shows "\<exists>f g h.
           convert_to_rule w (a @ '' + '' @ b) = Inr f
         \<and> convert_to_rule w (a @ '' | '' @ b) = Inr g
         \<and> convert_to_rule w (''('' @ a @ '' + '' @ b @ '') | '' @ c) = Inr h
         \<and> (\<forall>state.
               call_rule f state =
                 Inr (Bool_value (state (player w) a \<ge> 1 \<and> state (player w) b \<ge> 1))
             \<and> call_rule g state =
                 Inr (Bool_value (state (player w) a \<ge> 1 \<or> state (player w) b \<ge> 1))
             \<and> call_rule h state =
                 Inr (Bool_value ((state (player w) a \<ge> 1 \<and> state (player w) b \<ge> 1)
                                  \<or> state (player w) c \<ge> 1)))"
  using assms
  by (simp add: convert_and[simplified] convert_or[simplified] convert_group[simplified] has_def)

lemma example_reserved_free: "reserved_free example_world"
  by (simp add: reserved_free_def example_world_def item_keys_def)

lemma example_item_tokens:
  "item_token example_world ''A''" "item_token example_world ''B''"
  "item_token example_world ''C''" "item_token example_world ''Key''"
  by (simp_all add: item_token_def example_world_def item_keys_def word_def is_space_def
      plain_char_def)

theorem and_or_rules_witness:
  "\<exists>f g h.
      convert_to_rule example_world ''A + B'' = Inr f
    \<and> convert_to_rule example_world ''A | B'' = Inr g
    \<and> convert_to_rule example_world ''(A + B) | C'' = Inr h
    \<and> call_rule f (holding [''A'']) = Inr (Bool_value False)
    \<and> call_rule g (holding [''A'']) = Inr (Bool_value True)
    \<and> call_rule h (holding [''C'']) = Inr (Bool_value True)"
proof -
  from and_or_rules[OF example_reserved_free example_item_tokens(1,2,3)]
  obtain f g h where
    "convert_to_rule example_world (''A'' @ '' + '' @ ''B'') = Inr f"
    "convert_to_rule example_world (''A'' @ '' | '' @ ''B'') = Inr g"
    "convert_to_rule example_world (''('' @ ''A'' @ '' + '' @ ''B'' @ '') | '' @ ''C'') = Inr h"
    "\<And>state. call_rule f state =
        Inr (Bool_value (state (player example_world) ''A'' \<ge> 1
                         \<and> state (player example_world) ''B'' \<ge> 1))"
    "\<And>state. call_rule g state =
        Inr (Bool_value (state (player example_world) ''A'' \<ge> 1
                         \<or> state (player example_world) ''B'' \<ge> 1))"
    "\<And>state. call_rule h state =
        Inr (Bool_value ((state (player example_world) ''A'' \<ge> 1
                          \<and> state (player example_world) ''B'' \<ge> 1)
                         \<or> state (player example_world) ''C'' \<ge> 1))"
    by blast
  then show ?thesis by (simp add: holding_def)
qed

text \<open>
  C4 as stated fails: the rule texts \<^verbatim>\<open>A+B\<close>, \<^verbatim>\<open>A|B\<close> and \<^verbatim>\<open>(A+B)|C\<close> have no
  blanks around the operators, so \<open>split\<close> yields the parts \<^verbatim>\<open>A+B\<close>, \<^verbatim>\<open>A|B\<close>, and
  \<^verbatim>\<open>(\<close>, \<^verbatim>\<open>A+B\<close>, \<^verbatim>\<open>)|C\<close>; none of the joined parts is known, each is skipped, and
  the text left for \<^verbatim>\<open>eval\<close> is no expression.
\<close>

theorem unspaced_rules_counterexample:
  "convert_to_rule example_world ''A+B'' = Inl SyntaxError
 \<and> convert_to_rule example_world ''A|B'' = Inl SyntaxError
 \<and> convert_to_rule example_world ''(A+B)|C'' = Inl SyntaxError"
  by code_simp

lemma parts_and_or:
  assumes "word a" "word b" "word c"
  shows "rule_parts (a @ '' + '' @ b @ '' | '' @ c) = [a, ''+'', b, ''|'', c]"
  using assms
  by (simp add: rule_parts_def split_def replace_char_append replace_char_Cons replace_char_Nil
      pad_word split_words_word_blank split_words_char_blank split_words_word_end not_space_symbols
      del: split_words.simps)

lemma convert_and_or:
  assumes "reserved_free w" "item_token w a" "item_token w b" "item_token w c"
  shows "convert_to_rule w (a @ '' + '' @ b @ '' | '' @ c) =
           Inr (BoolOr (BoolAnd (Has_call ''state'' a (player w) None)
                                (Has_call ''state'' b (player w) None))
                       (Has_call ''state'' c (player w) None))"
  using assms
  by (simp add: convert_to_rule_def parts_and_or[simplified] item_token_word part_lookup_item
      part_lookup_reserved py_eval_lambda_def item_token_plain join_and_def join_or_def)

text \<open>
  C5 (amended). The compiler adds no precedence of its own, but the assembled text is
  read by Python, where \<^verbatim>\<open>and\<close> binds tighter than \<^verbatim>\<open>or\<close>. Under the conditions of
  C4, the predicate compiled from \<^verbatim>\<open>A | B + C\<close> is true on a state exactly when the
  player has A, or has both B and C; the predicate of \<^verbatim>\<open>A + B | C\<close> is true exactly
  when the player has both A and B, or has C.
\<close>

theorem mixed_rule_precedence:
  assumes "reserved_free w" "item_token w a" "item_token w b" "item_token w c"
  shows "\<exists>f g.
           convert_to_rule w (a @ '' | '' @ b @ '' + '' @ c) = Inr f
         \<and> convert_to_rule w (a @ '' + '' @ b @ '' | '' @ c) = Inr g
         \<and> (\<forall>state.
               call_rule f state =
                 Inr (Bool_value (state (player w) a \<ge> 1
                                  \<or> (state (player w) b \<ge> 1 \<and> state (player w) c \<ge> 1)))
             \<and> call_rule g state =
                 Inr (Bool_value ((state (player w) a \<ge> 1 \<and> state (player w) b \<ge> 1)
                                  \<or> state (player w) c \<ge> 1)))"
  using assms
  by (simp add: convert_or_and[simplified] convert_and_or[simplified] has_def)

theorem mixed_rule_precedence_witness:
  "\<exists>f g.
      convert_to_rule example_world ''A | B + C'' = Inr f
    \<and> convert_to_rule example_world ''A + B | C'' = Inr g
    \<and> call_rule f (holding [''A'']) = Inr (Bool_value True)
    \<and> call_rule f (holding [''B'']) = Inr (Bool_value False)
    \<and> call_rule g (holding [''C'']) = Inr (Bool_value True)"
proof -
  from mixed_rule_precedence[OF example_reserved_free example_item_tokens(1,2,3)]
  obtain f g where
    "convert_to_rule example_world (''A'' @ '' | '' @ ''B'' @ '' + '' @ ''C'') = Inr f"
    "convert_to_rule example_world (''A'' @ '' + '' @ ''B'' @ '' | '' @ ''C'') = Inr g"
    "\<And>state. call_rule f state =
        Inr (Bool_value (state (player example_world) ''A'' \<ge> 1
                         \<or> (state (player example_world) ''B'' \<ge> 1
                             \<and> state (player example_world) ''C'' \<ge> 1)))"
    "\<And>state. call_rule g state =
        Inr (Bool_value ((state (player example_world) ''A'' \<ge> 1
                          \<and> state (player example_world) ''B'' \<ge> 1)
                         \<or> state (player example_world) ''C'' \<ge> 1))"
    by blast
  then show ?thesis by (simp add: holding_def)
qed

text \<open>
  C5 as stated fails: on a state that holds only A, the predicate compiled from
  \<^verbatim>\<open>A | B + C\<close> is true, while the reading from left to right, (A or B) and C, is
  false there. Without blanks, \<^verbatim>\<open>A|B+C\<close> is one unknown part and nothing compiles.
\<close>

theorem left_to_right_counterexample:
  "convert_to_rule example_world ''A | B + C'' =
     Inr (BoolOr (Has_call ''state'' ''A'' 1 None)
            (BoolAnd (Has_call ''state'' ''B'' 1 None) (Has_call ''state'' ''C'' 1 None)))
 \<and> call_rule
       (BoolOr (Has_call ''state'' ''A'' 1 None)
          (BoolAnd (Has_call ''state'' ''B'' 1 None) (Has_call ''state'' ''C'' 1 None)))
       (holding [''A'']) = Inr (Bool_value True)
 \<and> \<not> ((holding [''A''] 1 ''A'' \<ge> 1 \<or> holding [''A''] 1 ''B'' \<ge> 1)
        \<and> holding [''A''] 1 ''C'' \<ge> 1)
 \<and> convert_to_rule example_world ''A|B+C'' = Inl SyntaxError"
  by code_simp

lemma split_at_absent: "c \<notin> set s \<Longrightarrow> split_at c s = [s]"
  by (induction s) auto

lemma split_at_first:
  "c \<notin> set k \<Longrightarrow> split_at c (k @ c # rest) = k # split_at c rest"
  by (induction k) auto

lemma digits_not_space: "is_digit c \<Longrightarrow> \<not> is_space c \<and> c \<noteq> CHR ''('' \<and> c \<noteq> CHR '')''
    \<and> c \<noteq> CHR ''{'' \<and> c \<noteq> CHR ''}''"
  by (auto simp: is_digit_def is_space_def)

lemma word_counted:
  assumes "word k" "list_all is_digit ds"
  shows "word (k @ ''{'' @ ds @ ''}'')"
  using assms digits_not_space
  by (auto simp: word_def list_all_iff is_space_def)

lemma parts_counted:
  assumes "word k" "list_all is_digit ds"
  shows "rule_parts (k @ ''{'' @ ds @ ''}'') = [k @ ''{'' @ ds @ ''}'']"
  using word_counted[OF assms]
  by (simp add: rule_parts_def split_def pad_word split_words_word_end del: split_words.simps)

lemma split_counted:
  assumes "CHR ''{'' \<notin> set k" "list_all is_digit ds"
  shows "split_at (CHR ''{'') (k @ ''{'' @ ds @ ''}'') = [k, ds @ ''}'']"
proof -
  from assms(2) digits_not_space have "CHR ''{'' \<notin> set (ds @ ''}'')"
    by (auto simp: list_all_iff)
  then show ?thesis
    using split_at_first[OF assms(1), of "ds @ ''}''"] by (simp add: split_at_absent)
qed

lemma split_digits:
  assumes "list_all is_digit ds"
  shows "split_at (CHR ''}'') (ds @ ''}'') = [ds, []]"
proof -
  from assms digits_not_space have "CHR ''}'' \<notin> set ds"
    by (auto simp: list_all_iff)
  then show ?thesis using split_at_first[of "CHR ''}''" ds "[]"] by simp
qed

lemma convert_counted:
  assumes "k \<in> set (item_keys w)" "word k" "list_all plain_char k" "CHR ''{'' \<notin> set k"
    and "list_all is_digit ds" "py_int ds = Some n"
    and "part_lookup w (k @ ''{'' @ ds @ ''}'') = None"
  shows "convert_to_rule w (k @ ''{'' @ ds @ ''}'') =
           Inr (Has_call ''state'' k (player w) (if n > 1 then Some n else None))"
  using assms
  by (simp add: convert_to_rule_def parts_counted[simplified] split_counted[simplified]
      split_digits[simplified] py_eval_lambda_def make_has_def join_and_def join_or_def)


lemma parts_word: "word a \<Longrightarrow> rule_parts a = [a]"
  by (simp add: rule_parts_def split_def pad_word split_words_word_end del: split_words.simps)

lemma word_aliases: "word ''Grappling_Hook_Upgrade''" "word ''Infinite_Grapple''"
  by (simp_all add: word_def is_space_def)

lemma plain_base: "list_all plain_char ''Grappling_Hook''"
  by (simp add: plain_char_def)

lemma word_base: "word ''Grappling_Hook''"
  by (simp add: word_def is_space_def)

lemma convert_upgrade:
  assumes "''Grappling_Hook_Upgrade'' \<notin> set (events w)"
    and "option_flags w ''Grappling_Hook_Upgrade'' = None"
  shows "convert_to_rule w ''Grappling_Hook_Upgrade'' =
           Inr (Has_call ''state'' ''Grappling_Hook'' (player w) (Some 2))"
proof -
  from assms have "part_lookup w ''Grappling_Hook_Upgrade'' =
      Some (Has_text ''Grappling_Hook'' (player w) (Some 2))"
    by (simp add: part_lookup_def map_add_def dict_comp_def make_has_def)
  then show ?thesis
    by (simp add: convert_to_rule_def parts_word[OF word_aliases(1)] py_eval_lambda_def
        plain_char_def join_and_def join_or_def)
qed

lemma convert_infinite:
  assumes "''Infinite_Grapple'' \<notin> set (events w)"
    and "option_flags w ''Infinite_Grapple'' = None"
  shows "convert_to_rule w ''Infinite_Grapple'' =
           Inr (Has_call ''state'' ''Grappling_Hook'' (player w) (Some 3))"
proof -
  from assms have "part_lookup w ''Infinite_Grapple'' =
      Some (Has_text ''Grappling_Hook'' (player w) (Some 3))"
    by (simp add: part_lookup_def map_add_def dict_comp_def make_has_def)
  then show ?thesis
    by (simp add: convert_to_rule_def parts_word[OF word_aliases(2)] py_eval_lambda_def
        plain_char_def join_and_def join_or_def)
qed

lemma digit_texts:
  "list_all is_digit ''2''" "list_all is_digit ''3''" "py_int ''2'' = Some 2" "py_int ''3'' = Some 3"
  by (simp_all add: is_digit_def)

lemma base_no_brace: "CHR ''{'' \<notin> set ''Grappling_Hook''"
  by simp


text \<open>
  C8. Let \<open>k\<close> be an item of the catalog that is a word, has no brace and is its own
  string literal, and let the token \<^verbatim>\<open>k{3}\<close> not itself be an entry of the lookup table
  (it is then a counted token). The rule \<^verbatim>\<open>k{3}\<close> compiles to a predicate that is true
  on a state exactly when the player's count of \<open>k\<close> is at least 3, hence false at
  count 2. Whatever the item catalog holds, when no event or option carries an alias
  name, the upgrade alias compiles to the check for at least 2 of the base item and the
  infinite alias to the check for at least 3; these are the very predicates of the
  literal counted rules \<^verbatim>\<open>Grappling_Hook{2}\<close> and \<^verbatim>\<open>Grappling_Hook{3}\<close> whenever those
  are counted tokens of a catalog that has the base item.
\<close>

theorem counted_and_alias_rules:
  assumes "k \<in> set (item_keys w)" "word k" "list_all plain_char k" "CHR ''{'' \<notin> set k"
    and "part_lookup w (k @ ''{3}'') = None"
    and "list_all (\<lambda>t. t \<notin> set (events w) \<and> option_flags w t = None)
           [''Grappling_Hook_Upgrade'', ''Infinite_Grapple'']"
  shows "\<exists>f up inf.
      convert_to_rule w (k @ ''{3}'') = Inr f
    \<and> convert_to_rule w ''Grappling_Hook_Upgrade'' = Inr up
    \<and> convert_to_rule w ''Infinite_Grapple'' = Inr inf
    \<and> (\<forall>state.
          call_rule f state = Inr (Bool_value (state (player w) k \<ge> 3))
        \<and> call_rule up state = Inr (Bool_value (state (player w) ''Grappling_Hook'' \<ge> 2))
        \<and> call_rule inf state = Inr (Bool_value (state (player w) ''Grappling_Hook'' \<ge> 3)))
    \<and> (''Grappling_Hook'' \<in> set (item_keys w) \<and> part_lookup w ''Grappling_Hook{2}'' = None
          \<longrightarrow> convert_to_rule w ''Grappling_Hook{2}'' = Inr up)
    \<and> (''Grappling_Hook'' \<in> set (item_keys w) \<and> part_lookup w ''Grappling_Hook{3}'' = None
          \<longrightarrow> convert_to_rule w ''Grappling_Hook{3}'' = Inr inf)"
proof -
  have f: "convert_to_rule w (k @ ''{3}'') = Inr (Has_call ''state'' k (player w) (Some 3))"
    using convert_counted[OF assms(1-4) digit_texts(2) digit_texts(4)] assms(5) by simp
  have up: "convert_to_rule w ''Grappling_Hook_Upgrade'' =
      Inr (Has_call ''state'' ''Grappling_Hook'' (player w) (Some 2))"
    using assms(6) by (simp add: convert_upgrade)
  have inf: "convert_to_rule w ''Infinite_Grapple'' =
      Inr (Has_call ''state'' ''Grappling_Hook'' (player w) (Some 3))"
    using assms(6) by (simp add: convert_infinite)
  have two: "convert_to_rule w ''Grappling_Hook{2}'' =
      Inr (Has_call ''state'' ''Grappling_Hook'' (player w) (Some 2))"
    if "''Grappling_Hook'' \<in> set (item_keys w)" "part_lookup w ''Grappling_Hook{2}'' = None"
    using convert_counted[OF that(1) word_base plain_base base_no_brace digit_texts(1)
        digit_texts(3)] that(2) by simp
  have three: "convert_to_rule w ''Grappling_Hook{3}'' =
      Inr (Has_call ''state'' ''Grappling_Hook'' (player w) (Some 3))"
    if "''Grappling_Hook'' \<in> set (item_keys w)" "part_lookup w ''Grappling_Hook{3}'' = None"
    using convert_counted[OF that(1) word_base plain_base base_no_brace digit_texts(2)
        digit_texts(4)] that(2) by simp
  show ?thesis
    using two three by (simp add: f up inf has_def)
qed

lemma example_counted:
  "''Key'' \<in> set (item_keys example_world)" "word ''Key''" "list_all plain_char ''Key''"
  "CHR ''{'' \<notin> set ''Key''" "part_lookup example_world (''Key'' @ ''{3}'') = None"
  "list_all (\<lambda>t. t \<notin> set (events example_world) \<and> option_flags example_world t = None)
     [''Grappling_Hook_Upgrade'', ''Infinite_Grapple'']"
  "''Grappling_Hook'' \<in> set (item_keys example_world)"
  "part_lookup example_world ''Grappling_Hook{2}'' = None"
  "part_lookup example_world ''Grappling_Hook{3}'' = None"
  by (simp_all add: example_world_def item_keys_def word_def is_space_def plain_char_def
      part_lookup_def map_add_def dict_comp_def)

theorem counted_and_alias_rules_witness:
  "\<exists>f up inf.
      convert_to_rule example_world ''Key{3}'' = Inr f
    \<and> call_rule f (holding [''Key'', ''Key'']) = Inr (Bool_value False)
    \<and> call_rule f (holding [''Key'', ''Key'', ''Key'']) = Inr (Bool_value True)
    \<and> convert_to_rule example_world ''Grappling_Hook_Upgrade'' = Inr up
    \<and> convert_to_rule example_world ''Grappling_Hook{2}'' = Inr up
    \<and> call_rule up (holding [''Grappling_Hook'', ''Grappling_Hook'']) = Inr (Bool_value True)
    \<and> convert_to_rule example_world ''Infinite_Grapple'' = Inr inf
    \<and> convert_to_rule example_world ''Grappling_Hook{3}'' = Inr inf
    \<and> call_rule inf (holding [''Grappling_Hook'', ''Grappling_Hook'']) = Inr (Bool_value False)"
proof -
  from counted_and_alias_rules[OF example_counted(1-6)]
  obtain f up inf where
    "convert_to_rule example_world (''Key'' @ ''{3}'') = Inr f"
    "convert_to_rule example_world ''Grappling_Hook_Upgrade'' = Inr up"
    "convert_to_rule example_world ''Infinite_Grapple'' = Inr inf"
    "\<And>state. call_rule f state = Inr (Bool_value (state (player example_world) ''Key'' \<ge> 3))"
    "\<And>state. call_rule up state =
        Inr (Bool_value (state (player example_world) ''Grappling_Hook'' \<ge> 2))"
    "\<And>state. call_rule inf state =
        Inr (Bool_value (state (player example_world) ''Grappling_Hook'' \<ge> 3))"
    "''Grappling_Hook'' \<in> set (item_keys example_world)
       \<and> part_lookup example_world ''Grappling_Hook{2}'' = None
       \<longrightarrow> convert_to_rule example_world ''Grappling_Hook{2}'' = Inr up"
    "''Grappling_Hook'' \<in> set (item_keys example_world)
       \<and> part_lookup example_world ''Grappling_Hook{3}'' = None
       \<longrightarrow> convert_to_rule example_world ''Grappling_Hook{3}'' = Inr inf"
    by blast
  then show ?thesis using example_counted(7-9) by (simp add: holding_def)
qed

subsection \<open>Parts that the compiler does not know\<close>








end
